theory Spec2Isabelle
  imports Main "HOL-Library.Word"
begin

section \<open>Go values: errors, panics, multiple results\<close>

text \<open>
  An \<open>error\<close> is the message that \<open>fmt.Errorf\<close> builds; the verb \<open>%s\<close> applied to an
  error prints its message, so wrapping is concatenation. A Go function returning
  \<open>(T, error)\<close> returns both components; it is modelled as a pair whose second component is
  \<open>None\<close> for \<open>nil\<close>. An interface method of the orchestrator backend, whose result is read
  only after the \<open>err != nil\<close> test, is a sum (\<open>Inl\<close> the error). A \<open>nil\<close> map that is only
  read behaves like the empty map and is modelled by it; a map that is written to is an
  option, \<open>None\<close> for \<open>nil\<close>, because the write panics.
\<close>

type_synonym error = string

datatype panic = NilDereference | NilMapWrite | Panic string

datatype 'a outcome = Panics panic | Returns 'a

type_synonym labels = "string \<rightharpoonup> string"

section \<open>Label filters (package interfaces and package backend)\<close>

text \<open>
  \<open>filters.Arg(key, value)\<close> and \<open>filters.NewArgs(args...)\<close> of the Docker API are
  constructors here. \<open>interfaces.StackLabel\<close>, the label key, is declared outside the
  listed files; every function that reads it takes it as its first argument.
\<close>

datatype KeyValuePair = Arg string string

datatype Args = NewArgs "KeyValuePair list"

definition StackLabelFilter :: "string \<Rightarrow> string \<Rightarrow> Args" where
  "StackLabelFilter StackLabel stackID =
     (if stackID = [] then NewArgs []
      else NewArgs [Arg ''label'' (StackLabel @ ''='' @ stackID)])"

definition stackLabelFilters :: "string \<Rightarrow> string list \<Rightarrow> Args" where
  "stackLabelFilters StackLabel stackIDs =
     (if length stackIDs = 1 then StackLabelFilter StackLabel (stackIDs ! 0)
      else NewArgs [Arg ''label'' StackLabel])"

section \<open>Orchestrator resources\<close>

text \<open>
  The swarm types of the Docker API, with the fields that the code reads. \<open>Task\<close> embeds
  \<open>Annotations\<close>, so \<open>task.Labels\<close> is \<open>Annotations.Labels (Task.Annotations task)\<close>.
  \<open>TaskState\<close> is a string type whose constant \<open>TaskStateRunning\<close> is \<open>"running"\<close>.
\<close>

record Annotations =
  Name :: string
  Labels :: labels

record TaskStatus =
  State :: string

definition TaskStateRunning :: string where
  "TaskStateRunning = ''running''"

record Task =
  Annotations :: Annotations
  ServiceID :: string
  Status :: TaskStatus

record ReplicatedService =
  Replicas :: "64 word option"

record ServiceMode =
  Replicated :: "ReplicatedService option"

record ServiceSpec =
  Annotations :: Annotations
  Mode :: ServiceMode

record Service =
  ID :: string
  Spec :: ServiceSpec

record SecretSpec =
  Annotations :: Annotations

record Secret =
  ID :: string
  Spec :: SecretSpec

record ConfigSpec =
  Annotations :: Annotations

record Config =
  ID :: string
  Spec :: ConfigSpec

text \<open>
  \<open>interfaces.SwarmResourceBackend\<close>: the queries take the list options, of which only the
  filter is set. The node type is a parameter, since only the number of nodes is read.
\<close>

record 'node SwarmResourceBackend =
  GetTasks :: "Args \<Rightarrow> error + Task list"
  GetServices :: "Args \<Rightarrow> error + Service list"
  GetSecrets :: "Args \<Rightarrow> error + Secret list"
  GetConfigs :: "Args \<Rightarrow> error + Config list"
  GetNodes :: "error + 'node list"

definition task_labels :: "Task \<Rightarrow> labels" where
  "task_labels task = Annotations.Labels (Task.Annotations task)"

definition service_labels :: "Service \<Rightarrow> labels" where
  "service_labels service = Annotations.Labels (ServiceSpec.Annotations (Service.Spec service))"

definition secret_labels :: "Secret \<Rightarrow> labels" where
  "secret_labels secret = Annotations.Labels (SecretSpec.Annotations (Secret.Spec secret))"

definition config_labels :: "Config \<Rightarrow> labels" where
  "config_labels config = Annotations.Labels (ConfigSpec.Annotations (Config.Spec config))"

section \<open>Joining resources to stacks\<close>

text \<open>
  The four functions \<open>getSwarmTasks\<close>, \<open>getSwarmServices\<close>, \<open>getSwarmSecrets\<close> and
  \<open>getSwarmConfigs\<close> run the same two loops, which differ in where the labels are read and
  in the message of the error. \<open>make_idsmap\<close> is the loop binding every requested ID to the
  empty list; \<open>join_loop\<close> is the loop over the resources, whose error branch returns the
  map built so far together with the error.
\<close>

fun make_idsmap :: "(string \<rightharpoonup> 'r list) \<Rightarrow> string list \<Rightarrow> (string \<rightharpoonup> 'r list)" where
  "make_idsmap idsmap [] = idsmap"
| "make_idsmap idsmap (stackID # stackIDs) = make_idsmap (idsmap(stackID \<mapsto> [])) stackIDs"

fun join_loop ::
  "('r \<Rightarrow> labels) \<Rightarrow> error \<Rightarrow> string \<Rightarrow> (string \<rightharpoonup> 'r list) \<Rightarrow> 'r list
     \<Rightarrow> (string \<rightharpoonup> 'r list) \<times> error option" where
  "join_loop labelsOf msg StackLabel idsmap [] = (idsmap, None)"
| "join_loop labelsOf msg StackLabel idsmap (r # rs) =
     (case labelsOf r StackLabel of
        None \<Rightarrow> (idsmap, Some msg)
      | Some stackID \<Rightarrow>
          (case idsmap stackID of
             Some stackRs \<Rightarrow>
               join_loop labelsOf msg StackLabel (idsmap(stackID \<mapsto> stackRs @ [r])) rs
           | None \<Rightarrow> join_loop labelsOf msg StackLabel idsmap rs))"

text \<open>The verb \<open>%+v\<close> prints a slice of strings between brackets, separated by spaces.\<close>

fun fmt_words :: "string list \<Rightarrow> string" where
  "fmt_words [] = []"
| "fmt_words [s] = s"
| "fmt_words (s # ss) = s @ '' '' @ fmt_words ss"

definition fmt_slice :: "string list \<Rightarrow> string" where
  "fmt_slice ss = ''['' @ fmt_words ss @ '']''"

definition getSwarmServices ::
  "string \<Rightarrow> 'node SwarmResourceBackend \<Rightarrow> string list
     \<Rightarrow> (string \<rightharpoonup> Service list) \<times> error option" where
  "getSwarmServices StackLabel b stackIDs =
     (case GetServices b (stackLabelFilters StackLabel stackIDs) of
        Inl err \<Rightarrow> (Map.empty, Some (''unable to list services: '' @ err))
      | Inr services \<Rightarrow>
          join_loop service_labels ''internal error: found service with no stack label''
            StackLabel (make_idsmap Map.empty stackIDs) services)"

definition getSwarmConfigs ::
  "string \<Rightarrow> 'node SwarmResourceBackend \<Rightarrow> string list
     \<Rightarrow> (string \<rightharpoonup> Config list) \<times> error option" where
  "getSwarmConfigs StackLabel b stackIDs =
     (case GetConfigs b (stackLabelFilters StackLabel stackIDs) of
        Inl err \<Rightarrow> (Map.empty, Some (''unable to list configs: '' @ err))
      | Inr configs \<Rightarrow>
          join_loop config_labels ''internal error: found service with no stack label''
            StackLabel (make_idsmap Map.empty stackIDs) configs)"

definition getSwarmSecrets ::
  "string \<Rightarrow> 'node SwarmResourceBackend \<Rightarrow> string list
     \<Rightarrow> (string \<rightharpoonup> Secret list) \<times> error option" where
  "getSwarmSecrets StackLabel b stackIDs =
     (case GetSecrets b (stackLabelFilters StackLabel stackIDs) of
        Inl err \<Rightarrow> (Map.empty, Some (''unable to list secrets: '' @ err))
      | Inr secrets \<Rightarrow>
          join_loop secret_labels ''internal error: found secret with no stack label''
            StackLabel (make_idsmap Map.empty stackIDs) secrets)"

definition getSwarmTasks ::
  "string \<Rightarrow> 'node SwarmResourceBackend \<Rightarrow> string list
     \<Rightarrow> (string \<rightharpoonup> Task list) \<times> error option" where
  "getSwarmTasks StackLabel b stackIDs =
     (case GetTasks b (stackLabelFilters StackLabel stackIDs) of
        Inl err \<Rightarrow>
          (Map.empty,
           Some (''unable to get tasks for stacks '' @ fmt_slice stackIDs @ '': '' @ err))
      | Inr tasks \<Rightarrow>
          join_loop task_labels ''internal error: found task with no stack label''
            StackLabel (make_idsmap Map.empty stackIDs) tasks)"

text \<open>
  The first listing of \<open>getSwarmTasks\<close> (the one that precedes \<open>stackLabelFilters\<close>) chooses
  the filter by a switch on the number of IDs, and with no ID it returns the empty map
  without a query. It builds the map before the query and returns it with a query error.
\<close>

definition getSwarmTasks_switch ::
  "string \<Rightarrow> 'node SwarmResourceBackend \<Rightarrow> string list
     \<Rightarrow> (string \<rightharpoonup> Task list) \<times> error option" where
  "getSwarmTasks_switch StackLabel b stackIDs =
     (if length stackIDs = 0 then (Map.empty, None)
      else
        let f = (if length stackIDs = 1 then StackLabelFilter StackLabel (stackIDs ! 0)
                 else NewArgs [Arg ''label'' StackLabel]);
            idsmap = make_idsmap Map.empty stackIDs
        in case GetTasks b f of
             Inl err \<Rightarrow>
               (idsmap,
                Some (''unable to get tasks for stacks '' @ fmt_slice stackIDs @ '': '' @ err))
           | Inr tasks \<Rightarrow>
               join_loop task_labels
                 ''internal error: found task with no stack label despite label''
                 StackLabel idsmap tasks)"

section \<open>Stack status\<close>

text \<open>
  \<open>types.Stack\<close> and its parts are declared outside the listed files; the records hold the
  fields that the status code reads or writes. \<open>CurrentTasks\<close> receives the local
  \<open>currentTasks\<close>, declared by \<open>currentTasks := 0\<close> and hence an \<open>int\<close>; \<open>DesiredTasks\<close>
  receives a \<open>uint64\<close>. The three kinds are the constants \<open>types.KindSwarmService\<close>,
  \<open>types.KindSwarmSecret\<close> and \<open>types.KindSwarmConfig\<close>.
\<close>

datatype Kind = KindSwarmService | KindSwarmSecret | KindSwarmConfig

record StackResource =
  ID :: string
  Kind :: Kind

record StackResources =
  Services :: "string \<rightharpoonup> StackResource"
  Secrets :: "string \<rightharpoonup> StackResource"
  Configs :: "string \<rightharpoonup> StackResource"

record ServiceStatus =
  CurrentTasks :: int
  DesiredTasks :: "64 word"

record StackStatus =
  ServicesStatus :: "(string \<rightharpoonup> ServiceStatus) option"

record Stack =
  ID :: string
  Resources :: StackResources
  Status :: StackStatus

text \<open>The zero value \<open>types.Stack{}\<close>: empty ID, \<open>nil\<close> maps.\<close>

definition Stack_zero :: Stack where
  "Stack_zero =
     \<lparr>Stack.ID = [],
      Resources = \<lparr>Services = Map.empty, Secrets = Map.empty, Configs = Map.empty\<rparr>,
      Status = \<lparr>ServicesStatus = None\<rparr>\<rparr>"

definition getNodeCount :: "'node SwarmResourceBackend \<Rightarrow> 64 word \<times> error option" where
  "getNodeCount b =
     (case GetNodes b of
        Inl err \<Rightarrow> (0, Some (''unable to list nodes: '' @ err))
      | Inr nodes \<Rightarrow> (of_nat (length nodes), None))"

definition stackServices :: "Service list \<Rightarrow> (string \<rightharpoonup> StackResource)" where
  "stackServices services =
     fold (\<lambda>service res.
             res(Annotations.Name (ServiceSpec.Annotations (Service.Spec service)) \<mapsto>
                   \<lparr>StackResource.ID = Service.ID service, Kind = KindSwarmService\<rparr>))
       services Map.empty"

definition stackSecrets :: "Secret list \<Rightarrow> (string \<rightharpoonup> StackResource)" where
  "stackSecrets secrets =
     fold (\<lambda>secret res.
             res(Annotations.Name (SecretSpec.Annotations (Secret.Spec secret)) \<mapsto>
                   \<lparr>StackResource.ID = Secret.ID secret, Kind = KindSwarmSecret\<rparr>))
       secrets Map.empty"

definition stackConfigs :: "Config list \<Rightarrow> (string \<rightharpoonup> StackResource)" where
  "stackConfigs configs =
     fold (\<lambda>config res.
             res(Annotations.Name (ConfigSpec.Annotations (Config.Spec config)) \<mapsto>
                   \<lparr>StackResource.ID = Config.ID config, Kind = KindSwarmConfig\<rparr>))
       configs Map.empty"

text \<open>
  The desired tasks of a service: \<open>*service.Spec.Mode.Replicated.Replicas\<close> when
  \<open>Replicated\<close> is not \<open>nil\<close>, a dereference that panics on a \<open>nil\<close> \<open>Replicas\<close>; the
  number of nodes otherwise.
\<close>

definition desired_tasks :: "Service \<Rightarrow> 64 word \<Rightarrow> 64 word outcome" where
  "desired_tasks service numNodes =
     (case Replicated (Mode (Service.Spec service)) of
        Some replicated \<Rightarrow>
          (case Replicas replicated of
             None \<Rightarrow> Panics NilDereference
           | Some replicas \<Rightarrow> Returns replicas)
      | None \<Rightarrow> Returns numNodes)"

text \<open>
  The loop over the tasks increments \<open>curentTasks\<close>, an identifier that
  \<open>populateStackStatus\<close> does not declare: the local it declares and later stores is
  \<open>currentTasks\<close>. The statement \<open>curentTasks++\<close> can only name a variable of package scope, which
  the model passes in and out as an integer. The local \<open>currentTasks\<close> is never assigned
  after its declaration.
\<close>

fun count_loop :: "Service \<Rightarrow> Task list \<Rightarrow> int \<Rightarrow> int" where
  "count_loop service [] curentTasks = curentTasks"
| "count_loop service (task # tasks) curentTasks =
     count_loop service tasks
       (if Task.ServiceID task = Service.ID service
           \<and> State (Task.Status task) = TaskStateRunning
        then curentTasks + 1 else curentTasks)"

fun services_loop ::
  "64 word \<Rightarrow> Task list \<Rightarrow> Service list \<Rightarrow> int \<Rightarrow> Stack \<Rightarrow> (int \<times> Stack) outcome" where
  "services_loop numNodes tasks [] curentTasks stack = Returns (curentTasks, stack)"
| "services_loop numNodes tasks (service # services) curentTasks stack =
     (case desired_tasks service numNodes of
        Panics p \<Rightarrow> Panics p
      | Returns desiredTasks \<Rightarrow>
          (let currentTasks = 0;
               curentTasks' = count_loop service tasks curentTasks
           in case ServicesStatus (Stack.Status stack) of
                None \<Rightarrow> Panics NilMapWrite
              | Some statuses \<Rightarrow>
                  services_loop numNodes tasks services curentTasks'
                    (stack\<lparr>Status := \<lparr>ServicesStatus = Some
                       (statuses(Annotations.Name (ServiceSpec.Annotations (Service.Spec service))
                          \<mapsto> \<lparr>CurrentTasks = currentTasks, DesiredTasks = desiredTasks\<rparr>))\<rparr>\<rparr>)))"

text \<open>
  \<open>populateStackStatus\<close> updates the stack behind its pointer and returns \<open>nil\<close>; the model
  returns the package variable, the updated stack and the error.
\<close>

definition populateStackStatus ::
  "int \<Rightarrow> Stack \<Rightarrow> Task list \<Rightarrow> Service list \<Rightarrow> Secret list \<Rightarrow> Config list \<Rightarrow> 64 word
     \<Rightarrow> (int \<times> Stack \<times> error option) outcome" where
  "populateStackStatus curentTasks stack tasks services secrets configs numNodes =
     (case services_loop numNodes tasks services curentTasks
             (stack\<lparr>Resources :=
                \<lparr>Services = stackServices services,
                 Secrets = stackSecrets secrets,
                 Configs = stackConfigs configs\<rparr>\<rparr>) of
        Panics p \<Rightarrow> Panics p
      | Returns (curentTasks', stack') \<Rightarrow> Returns (curentTasks', stack', None))"

text \<open>
  The loop of \<open>getStackStatuses\<close> over the stacks appends each populated stack to
  \<open>newStacks\<close>. A missing key in one of the four maps panics. The locals
  \<open>stackServices\<close>, \<open>stackSecrets\<close> and \<open>stackConfigs\<close> shadow the functions of the same
  names and carry a prime here.

  Scope of the model: in Go the \<open>ServicesStatus\<close> of a stack is a reference to a map,
  which the range copy of the stack shares and \<open>populateStackStatus\<close> writes in place. A
  \<open>Stack\<close> here holds the contents of its map, so \<open>stacks_loop\<close> and \<open>getStackStatuses\<close>
  describe the calls in which no two stacks of the list share one map object (stacks with a
  \<open>nil\<close> map, or each with a map of its own). Where two stacks share one, the code shows the
  statuses written for either in both results; the model does not cover that case. A single
  call of \<open>populateStackStatus\<close> has one stack and is not affected.
\<close>

fun stacks_loop ::
  "(string \<rightharpoonup> Task list) \<Rightarrow> (string \<rightharpoonup> Service list) \<Rightarrow> (string \<rightharpoonup> Secret list)
     \<Rightarrow> (string \<rightharpoonup> Config list) \<Rightarrow> 64 word \<Rightarrow> Stack list \<Rightarrow> int \<Rightarrow> Stack list
     \<Rightarrow> (int \<times> Stack list \<times> error option) outcome" where
  "stacks_loop tasks services secrets configs nodeCount [] curentTasks newStacks =
     Returns (curentTasks, newStacks, None)"
| "stacks_loop tasks services secrets configs nodeCount (stack # stacks) curentTasks newStacks =
     (case tasks (Stack.ID stack) of
        None \<Rightarrow> Panics (Panic ''internal error: task map does not contain expected ID'')
      | Some stackTasks' \<Rightarrow>
     (case services (Stack.ID stack) of
        None \<Rightarrow> Panics (Panic ''internal error: services map does not contain expected ID'')
      | Some stackServices' \<Rightarrow>
     (case secrets (Stack.ID stack) of
        None \<Rightarrow> Panics (Panic ''internal error: services map does not contain expected ID'')
      | Some stackSecrets' \<Rightarrow>
     (case configs (Stack.ID stack) of
        None \<Rightarrow> Panics (Panic ''internal error: configs map does not contain expected ID'')
      | Some stackConfigs' \<Rightarrow>
     (case populateStackStatus curentTasks stack stackTasks' stackServices' stackSecrets'
             stackConfigs' nodeCount of
        Panics p \<Rightarrow> Panics p
      | Returns (curentTasks', stack', Some err) \<Rightarrow>
          Returns (curentTasks', [],
            Some (''unable to populate stack status for stack '' @ Stack.ID stack' @ '': '' @ err))
      | Returns (curentTasks', stack', None) \<Rightarrow>
          stacks_loop tasks services secrets configs nodeCount stacks curentTasks'
            (newStacks @ [stack']))))))"

text \<open>
  \<open>getStackStatuses\<close>: \<open>newStacks\<close> starts as \<open>make([]types.Stack, len(stacks))\<close>, a slice
  of that many zero stacks.
\<close>

definition getStackStatuses ::
  "string \<Rightarrow> 'node SwarmResourceBackend \<Rightarrow> int \<Rightarrow> Stack list
     \<Rightarrow> (int \<times> Stack list \<times> error option) outcome" where
  "getStackStatuses StackLabel b curentTasks stacks =
     (if length stacks = 0 then Returns (curentTasks, [], None)
      else
        let stackIDs = map Stack.ID stacks in
        case getSwarmTasks StackLabel b stackIDs of
          (tasks, Some err) \<Rightarrow>
            Returns (curentTasks, [], Some (''unable to get swarm tasks: '' @ err))
        | (tasks, None) \<Rightarrow>
        (case getSwarmServices StackLabel b stackIDs of
          (services, Some err) \<Rightarrow>
            Returns (curentTasks, [], Some (''unable to get swarm services: '' @ err))
        | (services, None) \<Rightarrow>
        (case getSwarmSecrets StackLabel b stackIDs of
          (secrets, Some err) \<Rightarrow>
            Returns (curentTasks, [], Some (''unable to get swarm secrets: '' @ err))
        | (secrets, None) \<Rightarrow>
        (case getSwarmConfigs StackLabel b stackIDs of
          (configs, Some err) \<Rightarrow>
            Returns (curentTasks, [], Some (''unable to get swarm secrets: '' @ err))
        | (configs, None) \<Rightarrow>
        (case getNodeCount b of
          (nodeCount, Some err) \<Rightarrow>
            Returns (curentTasks, [], Some (''unable to get nodes: '' @ err))
        | (nodeCount, None) \<Rightarrow>
            stacks_loop tasks services secrets configs nodeCount stacks curentTasks
              (replicate (length stacks) Stack_zero))))))"

section \<open>Conversion of a stack specification\<close>

text \<open>
  \<open>types.StackSpec\<close> and \<open>composetypes.ServiceConfig\<close> with the fields that the conversion
  reads. \<open>ServiceConfig.Networks\<close> is a Go map; the code takes its length and ranges over
  its keys, so it is the list of its entries, in any order. The types of the configs, the
  secrets and the networks of a specification are parameters.
\<close>

record Metadata =
  Name :: string
  Labels :: labels

record 'v ServiceConfig =
  Networks :: "(string \<times> 'v) list"

record ('v, 'cfgs, 'secs, 'nets) StackSpec =
  Metadata :: Metadata
  Services :: "'v ServiceConfig list"
  Configs :: 'cfgs
  Secrets :: 'secs
  Networks :: 'nets

text \<open>
  \<open>interfaces.SwarmStackSpec\<close>: the four collections have types declared outside the listed
  files, which are parameters; each field is an option whose \<open>None\<close> is the zero value of
  the field, as in \<open>interfaces.SwarmStackSpec{}\<close>.
\<close>

record ('S, 'C, 'E, 'N) SwarmStackSpec =
  Annotations :: Annotations
  Services :: "'S option"
  Configs :: "'C option"
  Secrets :: "'E option"
  Networks :: "'N option"

definition SwarmStackSpec_zero :: "('S, 'C, 'E, 'N) SwarmStackSpec" where
  "SwarmStackSpec_zero =
     \<lparr>SwarmStackSpec.Annotations = \<lparr>Annotations.Name = [], Labels = Map.empty\<rparr>,
      Services = None, Configs = None, Secrets = None, Networks = None\<rparr>"

text \<open>
  The stages that \<open>convertToSwarmStackSpec\<close> calls, \<open>substitution.DoSubstitution\<close> and
  the functions of package \<open>convert\<close>, are outside the listed files and are parameters. They
  read the substitution context and the orchestrator backend \<open>'be\<close>. \<open>convert.Networks\<close>
  returns two values, of which the second is dropped.
\<close>

record ('v, 'cfgs, 'secs, 'nets, 'ns, 'be, 'S, 'C, 'E, 'N, 'X) stages =
  DoSubstitution ::
    "('v, 'cfgs, 'secs, 'nets) StackSpec \<Rightarrow> error + ('v, 'cfgs, 'secs, 'nets) StackSpec"
  NewNamespace :: "string \<Rightarrow> 'ns"
  Services :: "'ns \<Rightarrow> ('v, 'cfgs, 'secs, 'nets) StackSpec \<Rightarrow> 'be \<Rightarrow> error + 'S"
  Configs :: "'ns \<Rightarrow> 'cfgs \<Rightarrow> error + 'C"
  Secrets :: "'ns \<Rightarrow> 'secs \<Rightarrow> error + 'E"
  Networks :: "'ns \<Rightarrow> 'nets \<Rightarrow> string set \<Rightarrow> 'N \<times> 'X"

text \<open>
  \<open>getServicesDeclaredNetworks\<close> returns a \<open>map[string]struct{}\<close>, a set of names.
  \<open>networks_loop\<close> is the inner loop over the networks of one service, \<open>declared_loop\<close> the
  loop over the services.
\<close>

fun networks_loop :: "(string \<times> 'v) list \<Rightarrow> string set \<Rightarrow> string set" where
  "networks_loop [] serviceNetworks = serviceNetworks"
| "networks_loop ((network, v) # rest) serviceNetworks =
     networks_loop rest (insert network serviceNetworks)"

fun declared_loop :: "'v ServiceConfig list \<Rightarrow> string set \<Rightarrow> string set" where
  "declared_loop [] serviceNetworks = serviceNetworks"
| "declared_loop (serviceConfig # serviceConfigs) serviceNetworks =
     (if length (ServiceConfig.Networks serviceConfig) = 0
      then declared_loop serviceConfigs (insert ''default'' serviceNetworks)
      else declared_loop serviceConfigs
             (networks_loop (ServiceConfig.Networks serviceConfig) serviceNetworks))"

definition getServicesDeclaredNetworks :: "'v ServiceConfig list \<Rightarrow> string set" where
  "getServicesDeclaredNetworks serviceConfigs = declared_loop serviceConfigs {}"

definition convertToSwarmStackSpec ::
  "('v, 'cfgs, 'secs, 'nets, 'ns, 'be, 'S, 'C, 'E, 'N, 'X) stages \<Rightarrow> 'be
     \<Rightarrow> ('v, 'cfgs, 'secs, 'nets) StackSpec
     \<Rightarrow> ('S, 'C, 'E, 'N) SwarmStackSpec \<times> error option" where
  "convertToSwarmStackSpec st swarmBackend spec =
     (case DoSubstitution st spec of
        Inl err \<Rightarrow> (SwarmStackSpec_zero, Some err)
      | Inr substitutedSpec \<Rightarrow>
     (let namespace = NewNamespace st (Metadata.Name (StackSpec.Metadata spec)) in
      case stages.Services st namespace substitutedSpec swarmBackend of
        Inl err \<Rightarrow> (SwarmStackSpec_zero, Some (''failed to convert services : '' @ err))
      | Inr services \<Rightarrow>
     (case stages.Configs st namespace (StackSpec.Configs substitutedSpec) of
        Inl err \<Rightarrow> (SwarmStackSpec_zero, Some (''failed to convert configs: '' @ err))
      | Inr configs \<Rightarrow>
     (case stages.Secrets st namespace (StackSpec.Secrets substitutedSpec) of
        Inl err \<Rightarrow> (SwarmStackSpec_zero, Some (''failed to convert secrets: '' @ err))
      | Inr secrets \<Rightarrow>
     (let serviceNetworks = getServicesDeclaredNetworks (StackSpec.Services substitutedSpec);
          networkCreates =
            fst (stages.Networks st namespace (StackSpec.Networks substitutedSpec)
                   serviceNetworks)
      in (\<lparr>SwarmStackSpec.Annotations =
             \<lparr>Annotations.Name = Metadata.Name (StackSpec.Metadata spec),
              Labels = Metadata.Labels (StackSpec.Metadata spec)\<rparr>,
           Services = Some services,
           Configs = Some configs,
           Secrets = Some secrets,
           Networks = Some networkCreates\<rparr>, None))))))"

section \<open>Specification of the join and of the task counts\<close>

text \<open>
  What the specification says a join returns: every requested stack ID is bound to the
  resources whose stack label is that ID, in the order of the query's answer, and no other
  key is bound.
\<close>

definition join_spec ::
  "('r \<Rightarrow> labels) \<Rightarrow> string \<Rightarrow> string list \<Rightarrow> 'r list \<Rightarrow> (string \<rightharpoonup> 'r list)" where
  "join_spec labelsOf StackLabel stackIDs rs =
     (\<lambda>stackID. if stackID \<in> set stackIDs
                then Some (filter (\<lambda>r. labelsOf r StackLabel = Some stackID) rs)
                else None)"

text \<open>
  The name under which a service's status is recorded, and the tasks that the
  specification counts as current for a service: those of its ID whose state is running.
\<close>

abbreviation service_name :: "Service \<Rightarrow> string" where
  "service_name service \<equiv> Annotations.Name (ServiceSpec.Annotations (Service.Spec service))"

definition running_tasks :: "Service \<Rightarrow> Task list \<Rightarrow> Task list" where
  "running_tasks service tasks =
     filter (\<lambda>task. Task.ServiceID task = Service.ID service
                    \<and> State (Task.Status task) = TaskStateRunning) tasks"

section \<open>Example inputs\<close>

definition ex_StackLabel :: string where
  "ex_StackLabel = ''stack.id''"

definition ex_labels :: "string option \<Rightarrow> labels" where
  "ex_labels stackID = (case stackID of None \<Rightarrow> Map.empty | Some i \<Rightarrow> [ex_StackLabel \<mapsto> i])"

definition ex_task :: "string option \<Rightarrow> string \<Rightarrow> string \<Rightarrow> Task" where
  "ex_task stackID serviceID state =
     \<lparr>Task.Annotations = \<lparr>Annotations.Name = [], Labels = ex_labels stackID\<rparr>,
      ServiceID = serviceID, Status = \<lparr>State = state\<rparr>\<rparr>"

definition ex_service ::
  "string option \<Rightarrow> string \<Rightarrow> string \<Rightarrow> ReplicatedService option \<Rightarrow> Service" where
  "ex_service stackID serviceID name replicated =
     \<lparr>Service.ID = serviceID,
      Spec = \<lparr>ServiceSpec.Annotations = \<lparr>Annotations.Name = name, Labels = ex_labels stackID\<rparr>,
              Mode = \<lparr>Replicated = replicated\<rparr>\<rparr>\<rparr>"

definition ex_secret :: "string option \<Rightarrow> string \<Rightarrow> string \<Rightarrow> Secret" where
  "ex_secret stackID secretID name =
     \<lparr>Secret.ID = secretID,
      Spec = \<lparr>SecretSpec.Annotations = \<lparr>Annotations.Name = name, Labels = ex_labels stackID\<rparr>\<rparr>\<rparr>"

definition ex_config :: "string option \<Rightarrow> string \<Rightarrow> string \<Rightarrow> Config" where
  "ex_config stackID configID name =
     \<lparr>Config.ID = configID,
      Spec = \<lparr>ConfigSpec.Annotations = \<lparr>Annotations.Name = name, Labels = ex_labels stackID\<rparr>\<rparr>\<rparr>"

text \<open>A backend that answers every query with fixed lists, whatever the filter.\<close>

definition ex_backend ::
  "Task list \<Rightarrow> Service list \<Rightarrow> Secret list \<Rightarrow> Config list \<Rightarrow> nat
     \<Rightarrow> unit SwarmResourceBackend" where
  "ex_backend tasks services secrets configs n =
     \<lparr>GetTasks = (\<lambda>f. Inr tasks), GetServices = (\<lambda>f. Inr services),
      GetSecrets = (\<lambda>f. Inr secrets), GetConfigs = (\<lambda>f. Inr configs),
      GetNodes = Inr (replicate n ())\<rparr>"

definition ex_stack :: "string \<Rightarrow> (string \<rightharpoonup> ServiceStatus) option \<Rightarrow> Stack" where
  "ex_stack stackID statuses =
     \<lparr>Stack.ID = stackID,
      Resources = \<lparr>StackResources.Services = Map.empty, StackResources.Secrets = Map.empty,
                   StackResources.Configs = Map.empty\<rparr>,
      Status = \<lparr>ServicesStatus = statuses\<rparr>\<rparr>"

text \<open>
  Stages that fail where an error is given and otherwise return simple values: the
  substitution returns the specification unchanged and the namespace is the name.
\<close>

definition ex_stages ::
  "error option \<Rightarrow> error option \<Rightarrow> error option \<Rightarrow> error option
     \<Rightarrow> (unit, nat, nat, nat, string, unit, string, nat, nat, string set, unit) stages" where
  "ex_stages substitution_err services_err configs_err secrets_err =
     \<lparr>DoSubstitution =
        (\<lambda>spec. case substitution_err of Some e \<Rightarrow> Inl e | None \<Rightarrow> Inr spec),
      NewNamespace = (\<lambda>name. name),
      Services =
        (\<lambda>namespace spec b. case services_err of Some e \<Rightarrow> Inl e
                              | None \<Rightarrow> Inr (namespace @ ''_web'')),
      Configs = (\<lambda>namespace configs. case configs_err of Some e \<Rightarrow> Inl e | None \<Rightarrow> Inr configs),
      Secrets = (\<lambda>namespace secrets. case secrets_err of Some e \<Rightarrow> Inl e | None \<Rightarrow> Inr secrets),
      Networks = (\<lambda>namespace networks serviceNetworks. (serviceNetworks, ()))\<rparr>"

definition ex_spec :: "(unit, nat, nat, nat) StackSpec" where
  "ex_spec =
     \<lparr>StackSpec.Metadata = \<lparr>Metadata.Name = ''demo'', Labels = Map.empty\<rparr>,
      StackSpec.Services = [\<lparr>ServiceConfig.Networks = []\<rparr>,
                            \<lparr>ServiceConfig.Networks = [(''front'', ())]\<rparr>],
      StackSpec.Configs = 0, StackSpec.Secrets = 0, StackSpec.Networks = 0\<rparr>"

lemma make_idsmap_apply:
  "make_idsmap idsmap stackIDs k = (if k \<in> set stackIDs then Some [] else idsmap k)"
  by (induction stackIDs arbitrary: idsmap) auto

lemma join_loop_eq:
  "join_loop labelsOf msg L idsmap rs =
     ((\<lambda>k. map_option (\<lambda>xs. xs @ filter (\<lambda>r. labelsOf r L = Some k)
                                    (takeWhile (\<lambda>r. labelsOf r L \<noteq> None) rs)) (idsmap k)),
      if \<forall>r\<in>set rs. labelsOf r L \<noteq> None then None else Some msg)"
proof (induction rs arbitrary: idsmap)
  case Nil
  have "(\<lambda>k. map_option (\<lambda>xs. xs) (idsmap k)) = idsmap"
    by (rule ext) (simp add: option.map_ident)
  then show ?case by simp
next
  case (Cons r rs)
  let ?ok = "takeWhile (\<lambda>r. labelsOf r L \<noteq> None) rs"
  show ?case
  proof (cases "labelsOf r L")
    case None
    have "(\<lambda>k. map_option (\<lambda>xs. xs) (idsmap k)) = idsmap"
      by (rule ext) (simp add: option.map_ident)
    with None show ?thesis by simp
  next
    case (Some stackID)
    have maps: "(\<lambda>k. map_option (\<lambda>xs. xs @ filter (\<lambda>r. labelsOf r L = Some k) ?ok)
                   ((case idsmap stackID of None \<Rightarrow> idsmap
                     | Some stackRs \<Rightarrow> idsmap(stackID \<mapsto> stackRs @ [r])) k))
          = (\<lambda>k. map_option (\<lambda>xs. xs @ filter (\<lambda>r. labelsOf r L = Some k) (r # ?ok))
                   (idsmap k))"
    proof (rule ext)
      fix k
      show "map_option (\<lambda>xs. xs @ filter (\<lambda>r. labelsOf r L = Some k) ?ok)
                   ((case idsmap stackID of None \<Rightarrow> idsmap
                     | Some stackRs \<Rightarrow> idsmap(stackID \<mapsto> stackRs @ [r])) k)
          = map_option (\<lambda>xs. xs @ filter (\<lambda>r. labelsOf r L = Some k) (r # ?ok)) (idsmap k)"
        using Some by (cases "k = stackID") (auto split: option.splits)
    qed
    have "join_loop labelsOf msg L idsmap (r # rs) =
            join_loop labelsOf msg L
              (case idsmap stackID of None \<Rightarrow> idsmap
               | Some stackRs \<Rightarrow> idsmap(stackID \<mapsto> stackRs @ [r])) rs"
      using Some by (simp split: option.splits)
    also have "\<dots> =
        ((\<lambda>k. map_option (\<lambda>xs. xs @ filter (\<lambda>r. labelsOf r L = Some k) (r # ?ok)) (idsmap k)),
         if \<forall>r\<in>set rs. labelsOf r L \<noteq> None then None else Some msg)"
      unfolding Cons.IH maps ..
    finally show ?thesis using Some by simp
  qed
qed

lemma join_loop_make_idsmap:
  "join_loop labelsOf msg L (make_idsmap Map.empty stackIDs) rs =
     (join_spec labelsOf L stackIDs (takeWhile (\<lambda>r. labelsOf r L \<noteq> None) rs),
      if \<forall>r\<in>set rs. labelsOf r L \<noteq> None then None else Some msg)"
  by (auto simp: join_loop_eq make_idsmap_apply join_spec_def)

lemma dom_join_spec: "dom (join_spec labelsOf L stackIDs rs) = set stackIDs"
  by (auto simp: join_spec_def dom_def)

lemmas ex_defs = ex_StackLabel_def ex_labels_def ex_task_def ex_service_def ex_secret_def
  ex_config_def ex_backend_def ex_stack_def

lemmas label_defs = task_labels_def service_labels_def secret_labels_def config_labels_def

section \<open>The label filter\<close>

text \<open>
  C4 (as amended). The filter that \<open>stackLabelFilters\<close> builds is the existence-only
  filter on the stack-label key for the empty sequence and for two or more IDs; for exactly
  one ID it is the equality filter on \<open>"<stack-label-key>=<id>"\<close> when the ID is not the
  empty string, and the empty filter, which constrains nothing, when it is. The earlier
  listing of \<open>getSwarmTasks\<close> builds no filter for the empty sequence: it returns the
  empty mapping without a query.
\<close>

theorem stackLabelFilters_three_cases:
  "stackLabelFilters StackLabel [] = NewArgs [Arg ''label'' StackLabel]
   \<and> stackLabelFilters StackLabel [stackID] =
       (if stackID = [] then NewArgs []
        else NewArgs [Arg ''label'' (StackLabel @ ''='' @ stackID)])
   \<and> stackLabelFilters StackLabel (stackID # stackID' # stackIDs) =
       NewArgs [Arg ''label'' StackLabel]
   \<and> getSwarmTasks_switch StackLabel b [] = (Map.empty, None)"
  by (simp add: stackLabelFilters_def StackLabelFilter_def getSwarmTasks_switch_def)

text \<open>
  The claim as stated fails: the empty sequence gets the same existence-only filter as two
  IDs, not a filter of its own that matches nothing; the single ID \<open>""\<close> gets the empty
  filter, not an equality filter.
\<close>

theorem stackLabelFilters_empty_counterexample:
  "stackLabelFilters ex_StackLabel [] = NewArgs [Arg ''label'' ex_StackLabel]
   \<and> stackLabelFilters ex_StackLabel [] = stackLabelFilters ex_StackLabel [''a'', ''b'']
   \<and> stackLabelFilters ex_StackLabel [] \<noteq> NewArgs []
   \<and> stackLabelFilters ex_StackLabel [''''] = NewArgs []
   \<and> stackLabelFilters ex_StackLabel [''''] \<noteq> NewArgs [Arg ''label'' (ex_StackLabel @ ''='')]"
  by (simp add: stackLabelFilters_def StackLabelFilter_def)

section \<open>The joins\<close>

text \<open>
  C3. When the query succeeds and every returned resource carries the stack label, each of
  the four joins (tasks, services, secrets, configs) returns no error and a mapping whose
  key set is exactly the set of requested stack IDs, whatever stacks the resources belong to.
\<close>

theorem join_keys_are_requested_ids:
  fixes b :: "'node SwarmResourceBackend"
  shows
  "(GetTasks b (stackLabelFilters StackLabel stackIDs) = Inr tasks
      \<and> (\<forall>task\<in>set tasks. task_labels task StackLabel \<noteq> None)
     \<longrightarrow> snd (getSwarmTasks StackLabel b stackIDs) = None
       \<and> dom (fst (getSwarmTasks StackLabel b stackIDs)) = set stackIDs)
   \<and> (GetServices b (stackLabelFilters StackLabel stackIDs) = Inr services
      \<and> (\<forall>service\<in>set services. service_labels service StackLabel \<noteq> None)
     \<longrightarrow> snd (getSwarmServices StackLabel b stackIDs) = None
       \<and> dom (fst (getSwarmServices StackLabel b stackIDs)) = set stackIDs)
   \<and> (GetSecrets b (stackLabelFilters StackLabel stackIDs) = Inr secrets
      \<and> (\<forall>secret\<in>set secrets. secret_labels secret StackLabel \<noteq> None)
     \<longrightarrow> snd (getSwarmSecrets StackLabel b stackIDs) = None
       \<and> dom (fst (getSwarmSecrets StackLabel b stackIDs)) = set stackIDs)
   \<and> (GetConfigs b (stackLabelFilters StackLabel stackIDs) = Inr configs
      \<and> (\<forall>config\<in>set configs. config_labels config StackLabel \<noteq> None)
     \<longrightarrow> snd (getSwarmConfigs StackLabel b stackIDs) = None
       \<and> dom (fst (getSwarmConfigs StackLabel b stackIDs)) = set stackIDs)"
  by (simp add: getSwarmTasks_def getSwarmServices_def getSwarmSecrets_def getSwarmConfigs_def
        join_loop_make_idsmap dom_join_spec)

theorem join_keys_are_requested_ids_witness:
  "GetTasks (ex_backend [ex_task (Some ''a'') ''s1'' ''running'', ex_task (Some ''z'') ''s9'' ''running'']
               [ex_service (Some ''z'') ''s9'' ''db'' None] [ex_secret (Some ''b'') ''k1'' ''key'']
               [ex_config (Some ''y'') ''c1'' ''conf''] 1)
      (stackLabelFilters ex_StackLabel [''a'', ''b''])
     = Inr [ex_task (Some ''a'') ''s1'' ''running'', ex_task (Some ''z'') ''s9'' ''running'']
   \<and> dom (fst (getSwarmTasks ex_StackLabel
        (ex_backend [ex_task (Some ''a'') ''s1'' ''running'', ex_task (Some ''z'') ''s9'' ''running'']
               [ex_service (Some ''z'') ''s9'' ''db'' None] [ex_secret (Some ''b'') ''k1'' ''key'']
               [ex_config (Some ''y'') ''c1'' ''conf''] 1) [''a'', ''b''])) = {''a'', ''b''}
   \<and> dom (fst (getSwarmServices ex_StackLabel
        (ex_backend [ex_task (Some ''a'') ''s1'' ''running'', ex_task (Some ''z'') ''s9'' ''running'']
               [ex_service (Some ''z'') ''s9'' ''db'' None] [ex_secret (Some ''b'') ''k1'' ''key'']
               [ex_config (Some ''y'') ''c1'' ''conf''] 1) [''a'', ''b''])) = {''a'', ''b''}
   \<and> dom (fst (getSwarmSecrets ex_StackLabel
        (ex_backend [ex_task (Some ''a'') ''s1'' ''running'', ex_task (Some ''z'') ''s9'' ''running'']
               [ex_service (Some ''z'') ''s9'' ''db'' None] [ex_secret (Some ''b'') ''k1'' ''key'']
               [ex_config (Some ''y'') ''c1'' ''conf''] 1) [''a'', ''b''])) = {''a'', ''b''}
   \<and> dom (fst (getSwarmConfigs ex_StackLabel
        (ex_backend [ex_task (Some ''a'') ''s1'' ''running'', ex_task (Some ''z'') ''s9'' ''running'']
               [ex_service (Some ''z'') ''s9'' ''db'' None] [ex_secret (Some ''b'') ''k1'' ''key'']
               [ex_config (Some ''y'') ''c1'' ''conf''] 1) [''a'', ''b''])) = {''a'', ''b''}"
  using join_keys_are_requested_ids
    [of "ex_backend [ex_task (Some ''a'') ''s1'' ''running'', ex_task (Some ''z'') ''s9'' ''running'']
               [ex_service (Some ''z'') ''s9'' ''db'' None] [ex_secret (Some ''b'') ''k1'' ''key'']
               [ex_config (Some ''y'') ''c1'' ''conf''] 1"
        ex_StackLabel "[''a'', ''b'']"
        "[ex_task (Some ''a'') ''s1'' ''running'', ex_task (Some ''z'') ''s9'' ''running'']"
        "[ex_service (Some ''z'') ''s9'' ''db'' None]"
        "[ex_secret (Some ''b'') ''k1'' ''key'']"
        "[ex_config (Some ''y'') ''c1'' ''conf'']"]
  by (simp add: ex_defs label_defs)

text \<open>
  C5 (as amended). For each of the four joins whose query succeeds: if some returned resource
  lacks the stack label, the join returns the internal-consistency error of its kind, and
  the mapping returned beside the error is the join of the resources that precede the first
  unlabelled one; if every resource is labelled, there is no error and the mapping is the
  join of all of them. In the join every requested ID is bound to the resources labelled
  with it, so a resource labelled with an ID that was not requested is left out without an
  error.
\<close>

theorem join_fails_on_missing_label:
  fixes b :: "'node SwarmResourceBackend"
  shows
  "(GetTasks b (stackLabelFilters StackLabel stackIDs) = Inr tasks \<longrightarrow>
      getSwarmTasks StackLabel b stackIDs =
        (join_spec task_labels StackLabel stackIDs
           (takeWhile (\<lambda>task. task_labels task StackLabel \<noteq> None) tasks),
         if \<forall>task\<in>set tasks. task_labels task StackLabel \<noteq> None then None
         else Some ''internal error: found task with no stack label''))
   \<and> (GetServices b (stackLabelFilters StackLabel stackIDs) = Inr services \<longrightarrow>
      getSwarmServices StackLabel b stackIDs =
        (join_spec service_labels StackLabel stackIDs
           (takeWhile (\<lambda>service. service_labels service StackLabel \<noteq> None) services),
         if \<forall>service\<in>set services. service_labels service StackLabel \<noteq> None then None
         else Some ''internal error: found service with no stack label''))
   \<and> (GetSecrets b (stackLabelFilters StackLabel stackIDs) = Inr secrets \<longrightarrow>
      getSwarmSecrets StackLabel b stackIDs =
        (join_spec secret_labels StackLabel stackIDs
           (takeWhile (\<lambda>secret. secret_labels secret StackLabel \<noteq> None) secrets),
         if \<forall>secret\<in>set secrets. secret_labels secret StackLabel \<noteq> None then None
         else Some ''internal error: found secret with no stack label''))
   \<and> (GetConfigs b (stackLabelFilters StackLabel stackIDs) = Inr configs \<longrightarrow>
      getSwarmConfigs StackLabel b stackIDs =
        (join_spec config_labels StackLabel stackIDs
           (takeWhile (\<lambda>config. config_labels config StackLabel \<noteq> None) configs),
         if \<forall>config\<in>set configs. config_labels config StackLabel \<noteq> None then None
         else Some ''internal error: found service with no stack label''))"
  by (simp add: getSwarmTasks_def getSwarmServices_def getSwarmSecrets_def getSwarmConfigs_def
        join_loop_make_idsmap)

theorem join_fails_on_missing_label_witness:
  "getSwarmTasks ex_StackLabel
     (ex_backend [ex_task (Some ''a'') ''s1'' ''running'', ex_task (Some ''z'') ''s9'' ''running'',
                  ex_task None ''s2'' ''running'', ex_task (Some ''a'') ''s3'' ''running'']
        [] [] [] 1) [''a'', ''b'']
     = ([''a'' \<mapsto> [ex_task (Some ''a'') ''s1'' ''running''], ''b'' \<mapsto> []],
        Some ''internal error: found task with no stack label'')
   \<and> getSwarmSecrets ex_StackLabel
     (ex_backend [] [] [ex_secret (Some ''z'') ''k9'' ''other'', ex_secret (Some ''b'') ''k1'' ''key'']
        [] 1) [''a'', ''b'']
     = ([''a'' \<mapsto> [], ''b'' \<mapsto> [ex_secret (Some ''b'') ''k1'' ''key'']], None)"
proof -
  have m1: "join_spec task_labels ex_StackLabel [''a'', ''b''] [ex_task (Some ''a'') ''s1'' ''running'', ex_task (Some ''z'') ''s9'' ''running'']
        = [''a'' \<mapsto> [ex_task (Some ''a'') ''s1'' ''running''], ''b'' \<mapsto> []]"
    by (rule ext) (simp add: join_spec_def ex_defs label_defs)
  have m2: "join_spec secret_labels ex_StackLabel [''a'', ''b'']
          [ex_secret (Some ''z'') ''k9'' ''other'', ex_secret (Some ''b'') ''k1'' ''key'']
        = [''a'' \<mapsto> [], ''b'' \<mapsto> [ex_secret (Some ''b'') ''k1'' ''key'']]"
    by (rule ext) (simp add: join_spec_def ex_defs label_defs)
  have t: "takeWhile (\<lambda>task. task_labels task ex_StackLabel \<noteq> None)
             [ex_task (Some ''a'') ''s1'' ''running'', ex_task (Some ''z'') ''s9'' ''running'',
              ex_task None ''s2'' ''running'', ex_task (Some ''a'') ''s3'' ''running'']
           = [ex_task (Some ''a'') ''s1'' ''running'', ex_task (Some ''z'') ''s9'' ''running'']"
    by (simp add: ex_defs label_defs)
  have s: "takeWhile (\<lambda>secret. secret_labels secret ex_StackLabel \<noteq> None)
             [ex_secret (Some ''z'') ''k9'' ''other'', ex_secret (Some ''b'') ''k1'' ''key'']
           = [ex_secret (Some ''z'') ''k9'' ''other'', ex_secret (Some ''b'') ''k1'' ''key'']"
    by (simp add: ex_defs label_defs)
  have q1: "GetTasks (ex_backend [ex_task (Some ''a'') ''s1'' ''running'', ex_task (Some ''z'') ''s9'' ''running'',
                  ex_task None ''s2'' ''running'', ex_task (Some ''a'') ''s3'' ''running'']
        [] [] [] 1) (stackLabelFilters ex_StackLabel [''a'', ''b''])
      = Inr [ex_task (Some ''a'') ''s1'' ''running'', ex_task (Some ''z'') ''s9'' ''running'',
                  ex_task None ''s2'' ''running'', ex_task (Some ''a'') ''s3'' ''running'']"
    by (simp add: ex_backend_def)
  have q2: "GetSecrets (ex_backend [] [] [ex_secret (Some ''z'') ''k9'' ''other'', ex_secret (Some ''b'') ''k1'' ''key'']
        [] 1) (stackLabelFilters ex_StackLabel [''a'', ''b''])
      = Inr [ex_secret (Some ''z'') ''k9'' ''other'', ex_secret (Some ''b'') ''k1'' ''key'']"
    by (simp add: ex_backend_def)
  have n1: "\<not> (\<forall>task\<in>set [ex_task (Some ''a'') ''s1'' ''running'', ex_task (Some ''z'') ''s9'' ''running'',
                  ex_task None ''s2'' ''running'', ex_task (Some ''a'') ''s3'' ''running''].
             task_labels task ex_StackLabel \<noteq> None)"
    by (simp add: ex_defs label_defs)
  have n2: "\<forall>secret\<in>set [ex_secret (Some ''z'') ''k9'' ''other'', ex_secret (Some ''b'') ''k1'' ''key''].
             secret_labels secret ex_StackLabel \<noteq> None"
    by (simp add: ex_defs label_defs)
  from join_fails_on_missing_label
    [of "ex_backend [ex_task (Some ''a'') ''s1'' ''running'', ex_task (Some ''z'') ''s9'' ''running'',
                  ex_task None ''s2'' ''running'', ex_task (Some ''a'') ''s3'' ''running'']
        [] [] [] 1" ex_StackLabel "[''a'', ''b'']"
        "[ex_task (Some ''a'') ''s1'' ''running'', ex_task (Some ''z'') ''s9'' ''running'',
                  ex_task None ''s2'' ''running'', ex_task (Some ''a'') ''s3'' ''running'']"]
  have r1: "getSwarmTasks ex_StackLabel
     (ex_backend [ex_task (Some ''a'') ''s1'' ''running'', ex_task (Some ''z'') ''s9'' ''running'',
                  ex_task None ''s2'' ''running'', ex_task (Some ''a'') ''s3'' ''running'']
        [] [] [] 1) [''a'', ''b'']
     = ([''a'' \<mapsto> [ex_task (Some ''a'') ''s1'' ''running''], ''b'' \<mapsto> []],
        Some ''internal error: found task with no stack label'')"
    unfolding t m1 using q1 n1 by simp
  from join_fails_on_missing_label
    [of "ex_backend [] [] [ex_secret (Some ''z'') ''k9'' ''other'', ex_secret (Some ''b'') ''k1'' ''key'']
        [] 1" ex_StackLabel "[''a'', ''b'']" _ _
        "[ex_secret (Some ''z'') ''k9'' ''other'', ex_secret (Some ''b'') ''k1'' ''key'']"]
  have r2: "getSwarmSecrets ex_StackLabel
     (ex_backend [] [] [ex_secret (Some ''z'') ''k9'' ''other'', ex_secret (Some ''b'') ''k1'' ''key'']
        [] 1) [''a'', ''b'']
     = ([''a'' \<mapsto> [], ''b'' \<mapsto> [ex_secret (Some ''b'') ''k1'' ''key'']], None)"
    unfolding s m2 using q2 n2 by simp
  from r1 r2 show ?thesis by simp
qed

text \<open>
  The claim as stated fails where it says that no partial mapping is returned: with a
  labelled task followed by an unlabelled one, the error comes with a mapping that holds
  the labelled task.
\<close>

theorem join_returns_partial_map_counterexample:
  "snd (getSwarmTasks ex_StackLabel
          (ex_backend [ex_task (Some ''a'') ''s1'' ''running'', ex_task None ''s2'' ''running'']
             [] [] [] 1) [''a''])
     = Some ''internal error: found task with no stack label''
   \<and> fst (getSwarmTasks ex_StackLabel
          (ex_backend [ex_task (Some ''a'') ''s1'' ''running'', ex_task None ''s2'' ''running'']
             [] [] [] 1) [''a'']) ''a''
     = Some [ex_task (Some ''a'') ''s1'' ''running'']
   \<and> fst (getSwarmTasks ex_StackLabel
          (ex_backend [ex_task (Some ''a'') ''s1'' ''running'', ex_task None ''s2'' ''running'']
             [] [] [] 1) [''a'']) \<noteq> Map.empty"
  by (simp add: getSwarmTasks_def ex_defs label_defs stackLabelFilters_def
        StackLabelFilter_def)

section \<open>The status of a stack\<close>

lemma count_loop_eq:
  "count_loop service tasks curentTasks =
     curentTasks + int (length (running_tasks service tasks))"
  by (induction tasks arbitrary: curentTasks) (auto simp: running_tasks_def)

lemma desired_tasks_cases:
  "desired_tasks service numNodes = Panics NilDereference
   \<or> (\<exists>d. desired_tasks service numNodes = Returns d)"
  by (auto simp: desired_tasks_def split: option.splits)

lemma desired_tasks_Panics:
  "desired_tasks service numNodes = Panics p \<longleftrightarrow>
     p = NilDereference
     \<and> (\<exists>replicated. Replicated (Mode (Service.Spec service)) = Some replicated
                       \<and> Replicas replicated = None)"
  by (auto simp: desired_tasks_def split: option.splits)

lemma desired_tasks_Returns:
  "desired_tasks service numNodes = Returns d \<longleftrightarrow>
     (case Replicated (Mode (Service.Spec service)) of
        Some replicated \<Rightarrow> Replicas replicated = Some d
      | None \<Rightarrow> d = numNodes)"
  by (auto simp: desired_tasks_def split: option.splits)

lemma services_loop_panics:
  "(\<exists>p. services_loop numNodes tasks services curentTasks stack = Panics p) \<longleftrightarrow>
     services \<noteq> []
     \<and> (ServicesStatus (Stack.Status stack) = None
        \<or> (\<exists>service\<in>set services. desired_tasks service numNodes = Panics NilDereference))"
proof (induction services arbitrary: curentTasks stack)
  case Nil
  show ?case by simp
next
  case (Cons service services)
  show ?case
  proof (cases "desired_tasks service numNodes")
    case (Panics p)
    then have "p = NilDereference" by (simp add: desired_tasks_Panics)
    with Panics show ?thesis by auto
  next
    case (Returns d)
    show ?thesis
    proof (cases "ServicesStatus (Stack.Status stack)")
      case None
      with Returns show ?thesis by simp
    next
      case (Some statuses)
      with Returns show ?thesis
        by (cases "services = []") (auto simp: Cons.IH Let_def)
    qed
  qed
qed

lemma services_loop_kinds:
  "services_loop numNodes tasks services curentTasks stack = Panics p
     \<Longrightarrow> p = NilDereference \<or> p = NilMapWrite"
proof (induction services arbitrary: curentTasks stack)
  case Nil
  then show ?case by simp
next
  case (Cons service services)
  then show ?case
    by (auto simp: Let_def desired_tasks_Panics split: outcome.splits option.splits)
qed

lemma find_Some_set: "find P xs = Some x \<Longrightarrow> P x \<and> x \<in> set xs"
  by (induction xs) (auto split: if_splits)

lemma fold_upd_apply:
  "fold (\<lambda>x m. m(f x \<mapsto> g x)) xs m k =
     (case find (\<lambda>x. f x = k) (rev xs) of Some x \<Rightarrow> Some (g x) | None \<Rightarrow> m k)"
  by (induction xs arbitrary: m rule: rev_induct) auto

text \<open>
  The statuses that the loop over the services leaves in a map: each service writes, under
  its name, a current count of zero and its desired count.
\<close>

lemma services_loop_returns:
  assumes "services_loop numNodes tasks services curentTasks stack = Returns (c', stack')"
  shows "Stack.ID stack' = Stack.ID stack \<and> Resources stack' = Resources stack
     \<and> c' = curentTasks + (\<Sum>service\<leftarrow>services. int (length (running_tasks service tasks)))
     \<and> (services = [] \<longrightarrow> stack' = stack)
     \<and> (services \<noteq> [] \<longrightarrow>
          (\<exists>statuses. ServicesStatus (Stack.Status stack) = Some statuses
             \<and> ServicesStatus (Stack.Status stack') = Some
                 (fold (\<lambda>service m. m(service_name service \<mapsto>
                          \<lparr>CurrentTasks = 0,
                           DesiredTasks = (case desired_tasks service numNodes of
                                             Returns d \<Rightarrow> d | Panics p \<Rightarrow> 0)\<rparr>))
                    services statuses)))"
  using assms
proof (induction services arbitrary: curentTasks stack)
  case Nil
  then show ?case by simp
next
  case (Cons service services)
  from Cons.prems obtain d statuses where
    d: "desired_tasks service numNodes = Returns d" and
    st: "ServicesStatus (Stack.Status stack) = Some statuses"
    by (auto simp: Let_def split: outcome.splits option.splits)
  let ?stack1 = "stack\<lparr>Status := \<lparr>ServicesStatus = Some
                       (statuses(service_name service
                          \<mapsto> \<lparr>CurrentTasks = 0, DesiredTasks = d\<rparr>))\<rparr>\<rparr>"
  from Cons.prems d st have
    rec: "services_loop numNodes tasks services (count_loop service tasks curentTasks) ?stack1
            = Returns (c', stack')"
    by (simp add: Let_def)
  note ih = Cons.IH [OF rec]
  show ?case
  proof (cases "services = []")
    case True
    with ih d st show ?thesis by (simp add: count_loop_eq fun_upd_def cong: if_cong)
  next
    case False
    with ih d st show ?thesis by (simp add: count_loop_eq fun_upd_def cong: if_cong)
  qed
qed

lemma populateStackStatus_Returns:
  "populateStackStatus c stack tasks services secrets configs numNodes = Returns (c', stack', err)
     \<longleftrightarrow> err = None
       \<and> services_loop numNodes tasks services c
             (stack\<lparr>Resources :=
                \<lparr>StackResources.Services = stackServices services,
                 StackResources.Secrets = stackSecrets secrets,
                 StackResources.Configs = stackConfigs configs\<rparr>\<rparr>) = Returns (c', stack')"
  by (auto simp: populateStackStatus_def split: outcome.splits)

lemma populateStackStatus_Panics:
  "populateStackStatus c stack tasks services secrets configs numNodes = Panics p
     \<longleftrightarrow> services_loop numNodes tasks services c
             (stack\<lparr>Resources :=
                \<lparr>StackResources.Services = stackServices services,
                 StackResources.Secrets = stackSecrets secrets,
                 StackResources.Configs = stackConfigs configs\<rparr>\<rparr>) = Panics p"
  by (auto simp: populateStackStatus_def split: outcome.splits)

text \<open>
  C10. \<open>populateStackStatus\<close> is partial. It returns exactly when the list of services is
  empty, or the \<open>ServicesStatus\<close> map of the stack is not \<open>nil\<close> and every replicated
  service has a \<open>Replicas\<close> pointer that is not \<open>nil\<close>: with a service in the list, a
  \<open>nil\<close> map makes the write panic and a \<open>nil\<close> \<open>Replicas\<close> makes the dereference panic,
  and these are its only panics.
\<close>

theorem populateStackStatus_returns_iff:
  "((\<exists>r. populateStackStatus c stack tasks services secrets configs numNodes = Returns r)
      \<longleftrightarrow> services = []
          \<or> (ServicesStatus (Stack.Status stack) \<noteq> None
             \<and> (\<forall>service\<in>set services. \<forall>replicated.
                   Replicated (Mode (Service.Spec service)) = Some replicated
                     \<longrightarrow> Replicas replicated \<noteq> None)))
   \<and> (\<forall>p. populateStackStatus c stack tasks services secrets configs numNodes = Panics p
          \<longrightarrow> p = NilDereference \<or> p = NilMapWrite)"
proof -
  let ?stack = "stack\<lparr>Resources :=
                \<lparr>StackResources.Services = stackServices services,
                 StackResources.Secrets = stackSecrets secrets,
                 StackResources.Configs = stackConfigs configs\<rparr>\<rparr>"
  let ?loop = "services_loop numNodes tasks services c ?stack"
  have "(\<exists>r. populateStackStatus c stack tasks services secrets configs numNodes = Returns r)
          \<longleftrightarrow> \<not> (\<exists>p. ?loop = Panics p)"
    by (cases ?loop) (auto simp: populateStackStatus_def)
  also have "\<dots> \<longleftrightarrow> services = []
          \<or> (ServicesStatus (Stack.Status stack) \<noteq> None
             \<and> (\<forall>service\<in>set services. \<forall>replicated.
                   Replicated (Mode (Service.Spec service)) = Some replicated
                     \<longrightarrow> Replicas replicated \<noteq> None))"
    unfolding services_loop_panics by (auto simp: desired_tasks_Panics)
  finally have iff: "(\<exists>r. populateStackStatus c stack tasks services secrets configs numNodes
                          = Returns r)
      \<longleftrightarrow> services = []
          \<or> (ServicesStatus (Stack.Status stack) \<noteq> None
             \<and> (\<forall>service\<in>set services. \<forall>replicated.
                   Replicated (Mode (Service.Spec service)) = Some replicated
                     \<longrightarrow> Replicas replicated \<noteq> None))" .
  have kinds: "\<forall>p. populateStackStatus c stack tasks services secrets configs numNodes = Panics p
          \<longrightarrow> p = NilDereference \<or> p = NilMapWrite"
    by (auto simp: populateStackStatus_Panics dest: services_loop_kinds)
  from iff kinds show ?thesis by blast
qed

theorem populateStackStatus_returns_iff_witness:
  "(\<exists>r. populateStackStatus 0 (ex_stack ''a'' (Some Map.empty)) []
           [ex_service (Some ''a'') ''s1'' ''web'' (Some \<lparr>Replicas = Some 3\<rparr>),
            ex_service (Some ''a'') ''s2'' ''agent'' None] [] [] 5 = Returns r)
   \<and> (\<exists>r. populateStackStatus 0 (ex_stack ''a'' None) [] [] [] [] 5 = Returns r)
   \<and> (\<nexists>r. populateStackStatus 0 (ex_stack ''a'' None) []
           [ex_service (Some ''a'') ''s2'' ''agent'' None] [] [] 5 = Returns r)
   \<and> (\<nexists>r. populateStackStatus 0 (ex_stack ''a'' (Some Map.empty)) []
           [ex_service (Some ''a'') ''s1'' ''web'' (Some \<lparr>Replicas = None\<rparr>)] [] [] 5
         = Returns r)"
  using
    populateStackStatus_returns_iff [of 0 "ex_stack ''a'' (Some Map.empty)" "[]"
      "[ex_service (Some ''a'') ''s1'' ''web'' (Some \<lparr>Replicas = Some 3\<rparr>),
        ex_service (Some ''a'') ''s2'' ''agent'' None]" "[]" "[]" 5]
    populateStackStatus_returns_iff [of 0 "ex_stack ''a'' None" "[]" "[]" "[]" "[]" 5]
    populateStackStatus_returns_iff [of 0 "ex_stack ''a'' None" "[]"
      "[ex_service (Some ''a'') ''s2'' ''agent'' None]" "[]" "[]" 5]
    populateStackStatus_returns_iff [of 0 "ex_stack ''a'' (Some Map.empty)" "[]"
      "[ex_service (Some ''a'') ''s1'' ''web'' (Some \<lparr>Replicas = None\<rparr>)]" "[]" "[]" 5]
  by (simp add: ex_defs)

text \<open>
  C6. When \<open>populateStackStatus\<close> returns, the status recorded under the name of each
  service of the list is that of a service of the list with this name (the service itself
  when the names are distinct), and its desired task count is the configured replica count
  if that service is in replicated mode, whatever the number of nodes, and the number of
  nodes otherwise. \<open>getNodeCount\<close> returns the length of the list of nodes.
\<close>

theorem desiredTasks_by_mode:
  fixes b :: "'node SwarmResourceBackend"
  shows
  "(populateStackStatus c stack tasks services secrets configs numNodes
        = Returns (c', stack', err)
      \<and> service \<in> set services \<longrightarrow>
      (\<exists>statuses status recorded.
          ServicesStatus (Stack.Status stack') = Some statuses
        \<and> statuses (service_name service) = Some status
        \<and> recorded \<in> set services
        \<and> service_name recorded = service_name service
        \<and> (distinct (map service_name services) \<longrightarrow> recorded = service)
        \<and> (case Replicated (Mode (Service.Spec recorded)) of
             Some replicated \<Rightarrow> Replicas replicated = Some (DesiredTasks status)
           | None \<Rightarrow> DesiredTasks status = numNodes)))
   \<and> (GetNodes b = Inr nodes \<longrightarrow>
        getNodeCount b = (of_nat (length nodes), None)
        \<and> (length nodes < 2 ^ 64 \<longrightarrow> unat (fst (getNodeCount b)) = length nodes))"
proof -
  have nodes: "GetNodes b = Inr nodes \<longrightarrow>
        getNodeCount b = (of_nat (length nodes), None)
        \<and> (length nodes < 2 ^ 64 \<longrightarrow> unat (fst (getNodeCount b)) = length nodes)"
    by (auto simp: getNodeCount_def unat_of_nat)
  have status: "\<exists>statuses status recorded.
          ServicesStatus (Stack.Status stack') = Some statuses
        \<and> statuses (service_name service) = Some status
        \<and> recorded \<in> set services
        \<and> service_name recorded = service_name service
        \<and> (distinct (map service_name services) \<longrightarrow> recorded = service)
        \<and> (case Replicated (Mode (Service.Spec recorded)) of
             Some replicated \<Rightarrow> Replicas replicated = Some (DesiredTasks status)
           | None \<Rightarrow> DesiredTasks status = numNodes)"
    if ret: "populateStackStatus c stack tasks services secrets configs numNodes
               = Returns (c', stack', err)"
      and mem: "service \<in> set services"
  proof -
    let ?stack = "stack\<lparr>Resources :=
                \<lparr>StackResources.Services = stackServices services,
                 StackResources.Secrets = stackSecrets secrets,
                 StackResources.Configs = stackConfigs configs\<rparr>\<rparr>"
    let ?g = "\<lambda>service. \<lparr>CurrentTasks = 0,
                 DesiredTasks = (case desired_tasks service numNodes of
                                   Returns d \<Rightarrow> d | Panics p \<Rightarrow> 0)\<rparr>"
    from ret have loop: "services_loop numNodes tasks services c ?stack = Returns (c', stack')"
      by (simp add: populateStackStatus_Returns)
    from mem have ne: "services \<noteq> []" by auto
    from services_loop_returns [OF loop] ne obtain statuses0 where
      st': "ServicesStatus (Stack.Status stack') = Some
              (fold (\<lambda>service m. m(service_name service \<mapsto> ?g service)) services statuses0)"
      by auto
    from mem have "\<exists>x\<in>set (rev services). service_name x = service_name service" by auto
    then obtain recorded where
      f: "find (\<lambda>x. service_name x = service_name service) (rev services) = Some recorded"
      by (cases "find (\<lambda>x. service_name x = service_name service) (rev services)")
         (auto simp: find_None_iff)
    from find_Some_set [OF f] have rec_mem: "recorded \<in> set services"
      and rec_name: "service_name recorded = service_name service"
      by simp_all
    have lookup: "fold (\<lambda>service m. m(service_name service \<mapsto> ?g service)) services statuses0
                    (service_name service) = Some (?g recorded)"
      by (simp add: fold_upd_apply f)
    have same: "recorded = service" if "distinct (map service_name services)"
      using that rec_mem mem rec_name by (auto simp: distinct_map dest: inj_onD)
    have "\<not> (\<exists>p. services_loop numNodes tasks services c ?stack = Panics p)"
      using loop by simp
    then have "desired_tasks recorded numNodes \<noteq> Panics NilDereference"
      unfolding services_loop_panics using rec_mem by auto
    with desired_tasks_cases [of recorded numNodes] obtain d where
      d: "desired_tasks recorded numNodes = Returns d" by auto
    then have g: "DesiredTasks (?g recorded) = d" by simp
    from d have "case Replicated (Mode (Service.Spec recorded)) of
             Some replicated \<Rightarrow> Replicas replicated = Some d
           | None \<Rightarrow> d = numNodes"
      by (simp add: desired_tasks_Returns)
    then have "case Replicated (Mode (Service.Spec recorded)) of
             Some replicated \<Rightarrow> Replicas replicated = Some (DesiredTasks (?g recorded))
           | None \<Rightarrow> DesiredTasks (?g recorded) = numNodes"
      unfolding g .
    with st' lookup rec_mem rec_name same show ?thesis by blast
  qed
  from status nodes show ?thesis by blast
qed

lemmas status_defs = populateStackStatus_def desired_tasks_def stackServices_def
  stackSecrets_def stackConfigs_def TaskStateRunning_def

theorem desiredTasks_by_mode_witness:
  "populateStackStatus 0 (ex_stack ''a'' (Some Map.empty)) []
     [ex_service (Some ''a'') ''s1'' ''web'' (Some \<lparr>Replicas = Some 3\<rparr>),
      ex_service (Some ''a'') ''s2'' ''agent'' None] [] [] 5
     = Returns (0,
         \<lparr>Stack.ID = ''a'',
          Resources =
            \<lparr>StackResources.Services =
               [''web'' \<mapsto> \<lparr>StackResource.ID = ''s1'', Kind = KindSwarmService\<rparr>,
                ''agent'' \<mapsto> \<lparr>StackResource.ID = ''s2'', Kind = KindSwarmService\<rparr>],
             StackResources.Secrets = Map.empty, StackResources.Configs = Map.empty\<rparr>,
          Status = \<lparr>ServicesStatus = Some
            [''web'' \<mapsto> \<lparr>CurrentTasks = 0, DesiredTasks = 3\<rparr>,
             ''agent'' \<mapsto> \<lparr>CurrentTasks = 0, DesiredTasks = 5\<rparr>]\<rparr>\<rparr>,
         None)
   \<and> getNodeCount (ex_backend [] [] [] [] 5) = (5, None)"
  using desiredTasks_by_mode [of 0 "ex_stack ''a'' (Some Map.empty)" "[]"
     "[ex_service (Some ''a'') ''s1'' ''web'' (Some \<lparr>Replicas = Some 3\<rparr>),
       ex_service (Some ''a'') ''s2'' ''agent'' None]" "[]" "[]" 5 0 _ None
     "ex_service (Some ''a'') ''s2'' ''agent'' None" "ex_backend [] [] [] [] 5"
     "replicate 5 ()"]
  by (simp add: status_defs ex_defs getNodeCount_def)

text \<open>
  C1 (the code departs from the claim). With three tasks of one service in the states
  running, running and failed, the status recorded for the service has a current task
  count of 0, not 2: the loop over the tasks increments \<open>curentTasks\<close>, which ends at 2,
  and the local \<open>currentTasks\<close> that is stored stays at its initial 0.
\<close>

theorem currentTasks_recorded_as_zero:
  "populateStackStatus 0 (ex_stack ''a'' (Some Map.empty))
     [ex_task (Some ''a'') ''s1'' ''running'', ex_task (Some ''a'') ''s1'' ''running'',
      ex_task (Some ''a'') ''s1'' ''failed'']
     [ex_service (Some ''a'') ''s1'' ''web'' (Some \<lparr>Replicas = Some 3\<rparr>)] [] [] 1
     = Returns (2,
         \<lparr>Stack.ID = ''a'',
          Resources =
            \<lparr>StackResources.Services =
               [''web'' \<mapsto> \<lparr>StackResource.ID = ''s1'', Kind = KindSwarmService\<rparr>],
             StackResources.Secrets = Map.empty, StackResources.Configs = Map.empty\<rparr>,
          Status = \<lparr>ServicesStatus = Some
            [''web'' \<mapsto> \<lparr>CurrentTasks = 0, DesiredTasks = 3\<rparr>]\<rparr>\<rparr>,
         None)
   \<and> length (running_tasks (ex_service (Some ''a'') ''s1'' ''web'' (Some \<lparr>Replicas = Some 3\<rparr>))
        [ex_task (Some ''a'') ''s1'' ''running'', ex_task (Some ''a'') ''s1'' ''running'',
         ex_task (Some ''a'') ''s1'' ''failed'']) = 2"
  by (simp add: status_defs ex_defs running_tasks_def)

text \<open>
  Whatever the tasks, every status that \<open>populateStackStatus\<close> writes has a current task
  count of 0, and the package variable grows by the number of running tasks of the
  services.
\<close>

lemma currentTasks_always_zero:
  assumes "populateStackStatus c stack tasks services secrets configs numNodes
             = Returns (c', stack', err)"
    and "service \<in> set services"
  shows "\<exists>statuses status. ServicesStatus (Stack.Status stack') = Some statuses
           \<and> statuses (service_name service) = Some status \<and> CurrentTasks status = 0"
    and "c' = c + (\<Sum>service\<leftarrow>services. int (length (running_tasks service tasks)))"
proof -
  let ?stack = "stack\<lparr>Resources :=
                \<lparr>StackResources.Services = stackServices services,
                 StackResources.Secrets = stackSecrets secrets,
                 StackResources.Configs = stackConfigs configs\<rparr>\<rparr>"
  let ?g = "\<lambda>service. \<lparr>CurrentTasks = 0,
                 DesiredTasks = (case desired_tasks service numNodes of
                                   Returns d \<Rightarrow> d | Panics p \<Rightarrow> 0)\<rparr>"
  from assms(1) have loop: "services_loop numNodes tasks services c ?stack = Returns (c', stack')"
    by (simp add: populateStackStatus_Returns)
  from assms(2) have ne: "services \<noteq> []" by auto
  from services_loop_returns [OF loop] show
    "c' = c + (\<Sum>service\<leftarrow>services. int (length (running_tasks service tasks)))" by simp
  from services_loop_returns [OF loop] ne obtain statuses0 where
    st': "ServicesStatus (Stack.Status stack') = Some
            (fold (\<lambda>service m. m(service_name service \<mapsto> ?g service)) services statuses0)"
    by auto
  from assms(2) have "\<exists>x\<in>set (rev services). service_name x = service_name service" by auto
  then obtain recorded where
    f: "find (\<lambda>x. service_name x = service_name service) (rev services) = Some recorded"
    by (cases "find (\<lambda>x. service_name x = service_name service) (rev services)")
       (auto simp: find_None_iff)
  have "fold (\<lambda>service m. m(service_name service \<mapsto> ?g service)) services statuses0
          (service_name service) = Some (?g recorded)"
    by (simp add: fold_upd_apply f)
  with st' show "\<exists>statuses status. ServicesStatus (Stack.Status stack') = Some statuses
           \<and> statuses (service_name service) = Some status \<and> CurrentTasks status = 0"
    by auto
qed

text \<open>
  C2 (the code departs from the claim). For the two stacks \<open>a\<close> and \<open>b\<close>, of which only
  \<open>a\<close> has a service, \<open>getStackStatuses\<close> returns four elements: two zero stacks, which
  \<open>make([]types.Stack, len(stacks))\<close> puts in front, followed by the two populated stacks
  that the loop appends.
\<close>

theorem getStackStatuses_prepends_zero_stacks:
  "getStackStatuses ex_StackLabel
     (ex_backend [] [ex_service (Some ''a'') ''s1'' ''web'' None] [] [] 1) 0
     [ex_stack ''a'' (Some Map.empty), ex_stack ''b'' None]
     = Returns (0,
         [Stack_zero, Stack_zero,
          \<lparr>Stack.ID = ''a'',
           Resources =
             \<lparr>StackResources.Services =
                [''web'' \<mapsto> \<lparr>StackResource.ID = ''s1'', Kind = KindSwarmService\<rparr>],
              StackResources.Secrets = Map.empty, StackResources.Configs = Map.empty\<rparr>,
           Status = \<lparr>ServicesStatus = Some
             [''web'' \<mapsto> \<lparr>CurrentTasks = 0, DesiredTasks = 1\<rparr>]\<rparr>\<rparr>,
          ex_stack ''b'' None],
         None)"
  by (simp add: getStackStatuses_def getSwarmTasks_def getSwarmServices_def
        getSwarmSecrets_def getSwarmConfigs_def stackLabelFilters_def getNodeCount_def
        status_defs ex_defs label_defs)

text \<open>
  In general, a result of \<open>getStackStatuses\<close> without an error holds as many zero stacks as
  there are input stacks, followed by one stack per input stack, with the same IDs.
\<close>

lemma stacks_loop_appends:
  "stacks_loop tasks services secrets configs nodeCount stacks c newStacks
     = Returns (c', out, None)
   \<Longrightarrow> \<exists>populated. out = newStacks @ populated
         \<and> map Stack.ID populated = map Stack.ID stacks"
proof (induction stacks arbitrary: c newStacks)
  case Nil
  then show ?case by simp
next
  case (Cons stack stacks)
  from Cons.prems obtain ts ss se cs c1 stack1 where
    pop: "populateStackStatus c stack ts ss se cs nodeCount = Returns (c1, stack1, None)" and
    rec: "stacks_loop tasks services secrets configs nodeCount stacks c1 (newStacks @ [stack1])
            = Returns (c', out, None)"
    by (auto split: option.splits outcome.splits)
  from pop have "Stack.ID stack1 = Stack.ID stack"
    by (auto simp: populateStackStatus_Returns dest: services_loop_returns)
  with Cons.IH [OF rec] show ?case by auto
qed

lemma getStackStatuses_length:
  assumes "getStackStatuses StackLabel b c stacks = Returns (c', out, None)"
  shows "\<exists>populated. out = replicate (length stacks) Stack_zero @ populated
           \<and> map Stack.ID populated = map Stack.ID stacks"
proof (cases "stacks = []")
  case True
  with assms show ?thesis by (simp add: getStackStatuses_def)
next
  case False
  with assms obtain tasks services secrets configs nodeCount where
    "stacks_loop tasks services secrets configs nodeCount stacks c
       (replicate (length stacks) Stack_zero) = Returns (c', out, None)"
    by (auto simp: getStackStatuses_def Let_def split: prod.splits option.splits)
  then show ?thesis by (rule stacks_loop_appends)
qed

section \<open>The conversion\<close>

lemma networks_loop_eq:
  "networks_loop networks serviceNetworks = serviceNetworks \<union> fst ` set networks"
  by (induction networks serviceNetworks rule: networks_loop.induct) auto

lemma declared_loop_eq:
  "declared_loop serviceConfigs serviceNetworks =
     serviceNetworks \<union>
     (\<Union>serviceConfig\<in>set serviceConfigs.
        if ServiceConfig.Networks serviceConfig = [] then {''default''}
        else fst ` set (ServiceConfig.Networks serviceConfig))"
  by (induction serviceConfigs arbitrary: serviceNetworks) (auto simp: networks_loop_eq)

text \<open>
  C8. The set that \<open>getServicesDeclaredNetworks\<close> derives is the union, over the services,
  of the names of the networks that a service declares, with \<open>"default"\<close> in their place for
  a service that declares none; so \<open>"default"\<close> is in the set whenever some service
  declares no network.
\<close>

theorem getServicesDeclaredNetworks_union:
  "getServicesDeclaredNetworks serviceConfigs =
     (\<Union>serviceConfig\<in>set serviceConfigs.
        if ServiceConfig.Networks serviceConfig = [] then {''default''}
        else fst ` set (ServiceConfig.Networks serviceConfig))
   \<and> (\<forall>serviceConfig\<in>set serviceConfigs.
         ServiceConfig.Networks serviceConfig = []
           \<longrightarrow> ''default'' \<in> getServicesDeclaredNetworks serviceConfigs)"
  by (auto simp: getServicesDeclaredNetworks_def declared_loop_eq)

theorem getServicesDeclaredNetworks_union_witness:
  "getServicesDeclaredNetworks
     [\<lparr>ServiceConfig.Networks = []\<rparr>,
      \<lparr>ServiceConfig.Networks = [(''front'', ()), (''back'', ())]\<rparr>]
     = {''default'', ''front'', ''back''}
   \<and> ''default'' \<in> getServicesDeclaredNetworks
        [\<lparr>ServiceConfig.Networks = []\<rparr>,
         \<lparr>ServiceConfig.Networks = [(''front'', ()), (''back'', ())]\<rparr>]"
  using getServicesDeclaredNetworks_union
    [of "[\<lparr>ServiceConfig.Networks = []\<rparr>,
          \<lparr>ServiceConfig.Networks = [(''front'', ()), (''back'', ())]\<rparr>]"]
  by auto

text \<open>
  C7 (as amended). If the substitution fails, the conversion returns the zero-value
  specification and the error of the substitution as it is, without a wrapping. If the
  conversion of the services, of the configs or of the secrets fails (in this order, each
  after the stages before it succeeded), the conversion returns the zero-value
  specification and the stage's error behind the prefix \<open>"failed to convert services : "\<close>,
  \<open>"failed to convert configs: "\<close> or \<open>"failed to convert secrets: "\<close>. In each case no
  output of a stage is assembled. If the four stages succeed, no error is returned.
\<close>

theorem convertToSwarmStackSpec_stage_errors:
  "(DoSubstitution st spec = Inl err \<longrightarrow>
      convertToSwarmStackSpec st b spec = (SwarmStackSpec_zero, Some err))
   \<and> (DoSubstitution st spec = Inr substitutedSpec
      \<and> stages.Services st (NewNamespace st (Metadata.Name (StackSpec.Metadata spec)))
            substitutedSpec b = Inl err \<longrightarrow>
      convertToSwarmStackSpec st b spec =
        (SwarmStackSpec_zero, Some (''failed to convert services : '' @ err)))
   \<and> (DoSubstitution st spec = Inr substitutedSpec
      \<and> stages.Services st (NewNamespace st (Metadata.Name (StackSpec.Metadata spec)))
            substitutedSpec b = Inr services
      \<and> stages.Configs st (NewNamespace st (Metadata.Name (StackSpec.Metadata spec)))
            (StackSpec.Configs substitutedSpec) = Inl err \<longrightarrow>
      convertToSwarmStackSpec st b spec =
        (SwarmStackSpec_zero, Some (''failed to convert configs: '' @ err)))
   \<and> (DoSubstitution st spec = Inr substitutedSpec
      \<and> stages.Services st (NewNamespace st (Metadata.Name (StackSpec.Metadata spec)))
            substitutedSpec b = Inr services
      \<and> stages.Configs st (NewNamespace st (Metadata.Name (StackSpec.Metadata spec)))
            (StackSpec.Configs substitutedSpec) = Inr configs
      \<and> stages.Secrets st (NewNamespace st (Metadata.Name (StackSpec.Metadata spec)))
            (StackSpec.Secrets substitutedSpec) = Inl err \<longrightarrow>
      convertToSwarmStackSpec st b spec =
        (SwarmStackSpec_zero, Some (''failed to convert secrets: '' @ err)))
   \<and> (DoSubstitution st spec = Inr substitutedSpec
      \<and> stages.Services st (NewNamespace st (Metadata.Name (StackSpec.Metadata spec)))
            substitutedSpec b = Inr services
      \<and> stages.Configs st (NewNamespace st (Metadata.Name (StackSpec.Metadata spec)))
            (StackSpec.Configs substitutedSpec) = Inr configs
      \<and> stages.Secrets st (NewNamespace st (Metadata.Name (StackSpec.Metadata spec)))
            (StackSpec.Secrets substitutedSpec) = Inr secrets \<longrightarrow>
      snd (convertToSwarmStackSpec st b spec) = None
      \<and> SwarmStackSpec.Services (fst (convertToSwarmStackSpec st b spec)) = Some services
      \<and> SwarmStackSpec.Configs (fst (convertToSwarmStackSpec st b spec)) = Some configs
      \<and> SwarmStackSpec.Secrets (fst (convertToSwarmStackSpec st b spec)) = Some secrets)"
  by (simp add: convertToSwarmStackSpec_def Let_def)

theorem convertToSwarmStackSpec_stage_errors_witness:
  "convertToSwarmStackSpec (ex_stages (Some ''e1'') None None None) () ex_spec
     = (SwarmStackSpec_zero, Some ''e1'')
   \<and> convertToSwarmStackSpec (ex_stages None (Some ''e2'') None None) () ex_spec
     = (SwarmStackSpec_zero, Some ''failed to convert services : e2'')
   \<and> convertToSwarmStackSpec (ex_stages None None (Some ''e3'') None) () ex_spec
     = (SwarmStackSpec_zero, Some ''failed to convert configs: e3'')
   \<and> convertToSwarmStackSpec (ex_stages None None None (Some ''e4'')) () ex_spec
     = (SwarmStackSpec_zero, Some ''failed to convert secrets: e4'')
   \<and> snd (convertToSwarmStackSpec (ex_stages None None None None) () ex_spec) = None"
  using
    convertToSwarmStackSpec_stage_errors
      [of "ex_stages (Some ''e1'') None None None" ex_spec "''e1''" "()"]
    convertToSwarmStackSpec_stage_errors
      [of "ex_stages None (Some ''e2'') None None" ex_spec "''e2''" "()" ex_spec]
    convertToSwarmStackSpec_stage_errors
      [of "ex_stages None None (Some ''e3'') None" ex_spec "''e3''" "()" ex_spec "''demo_web''"]
    convertToSwarmStackSpec_stage_errors
      [of "ex_stages None None None (Some ''e4'')" ex_spec "''e4''" "()" ex_spec "''demo_web''" 0]
    convertToSwarmStackSpec_stage_errors
      [of "ex_stages None None None None" ex_spec _ "()" ex_spec "''demo_web''" 0 0]
  by (simp add: ex_stages_def ex_spec_def)

text \<open>
  The claim as stated fails for the substitution stage, whose error is returned as it is:
  a substitution that fails with the message \<open>"failed to convert services : x"\<close> gives the
  result that a service conversion failing with \<open>"x"\<close> gives, so the returned error does
  not identify the failing stage.
\<close>

theorem substitution_error_not_wrapped_counterexample:
  "snd (convertToSwarmStackSpec (ex_stages (Some ''boom'') None None None) () ex_spec)
     = Some ''boom''
   \<and> convertToSwarmStackSpec
       (ex_stages (Some ''failed to convert services : x'') None None None) () ex_spec
     = convertToSwarmStackSpec (ex_stages None (Some ''x'') None None) () ex_spec"
  by (simp add: convertToSwarmStackSpec_def ex_stages_def ex_spec_def)

end
